theory Spec2Isabelle
  imports Complex_Main
begin

section \<open>Data model of FlowchartBuilder.js\<close>

text \<open>
  Numbers are JavaScript numbers in the source; they are modelled as exact reals, so
  every statement below is about exact arithmetic. Node ids are only ever produced by
  \<^verbatim>\<open>generateId\<close>, as the string \<^verbatim>\<open>node-<n>\<close> for a counter value n; such a string
  is never empty, so an id is always truthy in the tests
  \<^verbatim>\<open>e.key === "Delete" && selectedNode\<close> and \<^verbatim>\<open>connecting && ...\<close>, and \<^verbatim>\<open>null\<close> is
  \<open>None\<close>. An edge id is the string \<^verbatim>\<open>e-<from>-<to>\<close>, determined by the two node ids.
\<close>

datatype node_ident = NodeId nat

datatype edge_ident = EdgeId node_ident node_ident

record position =
  pos_x :: real
  pos_y :: real

record node_data =
  label :: string

record node =
  node_id :: node_ident
  node_type :: string
  position :: position
  data :: node_data

record edge =
  edge_from :: node_ident
  edge_to :: node_ident
  edge_id :: edge_ident

text \<open>An entry of the undo and redo stacks: the object \<^verbatim>\<open>{ nodes, edges }\<close>.\<close>

record snapshot =
  snap_nodes :: "node list"
  snap_edges :: "edge list"

record transform =
  tr_x :: real
  tr_y :: real
  tr_k :: real

record pan_anchor =
  pan_x :: real
  pan_y :: real
  origX :: real
  origY :: real

text \<open>
  A render of the component: the values held by its \<^verbatim>\<open>useState\<close> hooks, and a
  number that tells it from every other render. A function component is run once per
  render, and every handler defined in its body is a new function, a closure over the
  values of that render: such a handler reads \<^verbatim>\<open>nodes\<close>, \<^verbatim>\<open>edges\<close>, \<^verbatim>\<open>history\<close>,
  \<^verbatim>\<open>future\<close>, \<^verbatim>\<open>transform\<close>, ... as they were when the render ran.
\<close>

record render =
  nodes :: "node list"
  edges :: "edge list"
  selectedNode :: "node_ident option"
  editingNode :: "node option"
  connecting :: "node_ident option"
  history :: "snapshot list"
  future :: "snapshot list"
  transform :: transform
  renderNo :: nat

text \<open>
  A listener registered on \<^verbatim>\<open>window\<close> is one of four handlers, each the closure of the
  render that registered it. Two listeners are the same function exactly when they are
  the same handler of the same render: the handlers of a later render are other
  functions, whatever its values.
\<close>

datatype listener =
    HandleNodeDrag render
  | HandleNodeMouseUp render
  | HandleCanvasPanMove render
  | HandleCanvasPanEnd render

text \<open>
  The whole state: the latest render, the \<^verbatim>\<open>useRef\<close> cells
  (shared by all renders), the listeners registered on \<^verbatim>\<open>window\<close> for
  \<^verbatim>\<open>mousemove\<close> and \<^verbatim>\<open>mouseup\<close>, and the counter inside \<^verbatim>\<open>generateId\<close>.
\<close>

record state = render +
  draggingNode :: "node_ident option"
  dragStartOffset :: position
  panning :: bool
  panStart :: pan_anchor
  mousemoveListeners :: "listener list"
  mouseupListeners :: "listener list"
  idCounter :: nat

record dom_rect =
  left :: real
  top :: real

text \<open>
  A mouse event together with what \<^verbatim>\<open>svgRef.current.getBoundingClientRect()\<close> returns
  while it is handled; \<open>onBackground\<close> is the test
  \<^verbatim>\<open>e.target === svgRef.current || e.target.classList.contains("canvas-bg")\<close>.
\<close>

record mouse_event =
  clientX :: real
  clientY :: real
  svgRect :: dom_rect
  button :: nat
  onBackground :: bool

record wheel_event =
  deltaY :: real

text \<open>
  A key event; \<open>inputFocused\<close> is the test that \<^verbatim>\<open>document.activeElement\<close> is an
  \<^verbatim>\<open>input\<close> element.
\<close>

record key_event =
  ctrlKey :: bool
  key :: string
  inputFocused :: bool

datatype error = TypeError

section \<open>Renders and listeners\<close>

text \<open>The closure environment of the latest render.\<close>

definition rendered :: "state \<Rightarrow> render" where
  "rendered s =
     \<lparr>nodes = nodes s, edges = edges s, selectedNode = selectedNode s,
      editingNode = editingNode s, connecting = connecting s, history = history s,
      future = future s, transform = transform s, renderNo = renderNo s\<rparr>"

text \<open>
  React renders the component again after a handler has called a setter with a new
  array or object, or with a value other than the one held (a setter given the value
  it holds is skipped). The new render has a new number; the count grows with every
  such call, so that the number of a render is never used again.
\<close>

definition rerender :: "state \<Rightarrow> state" where
  "rerender s = s\<lparr>renderNo := Suc (renderNo s)\<rparr>"

text \<open>
  \<^verbatim>\<open>addEventListener\<close> discards a function that is already registered;
  \<^verbatim>\<open>removeEventListener\<close> removes the function it is given.
\<close>

definition addEventListener :: "listener \<Rightarrow> listener list \<Rightarrow> listener list" where
  "addEventListener l ls = (if l \<in> set ls then ls else ls @ [l])"

definition removeEventListener :: "listener \<Rightarrow> listener list \<Rightarrow> listener list" where
  "removeEventListener l ls = removeAll l ls"

text \<open>The initial state of the component: one node \<^verbatim>\<open>node-0\<close>, the counter at 1.\<close>

definition initial :: state where
  "initial =
     \<lparr>nodes = [\<lparr>node_id = NodeId 0, node_type = ''default'',
                position = \<lparr>pos_x = 220, pos_y = 170\<rparr>,
                data = \<lparr>label = ''Start Node''\<rparr>\<rparr>],
      edges = [], selectedNode = None, editingNode = None, connecting = None,
      history = [], future = [], transform = \<lparr>tr_x = 0, tr_y = 0, tr_k = 1\<rparr>,
      renderNo = 0, draggingNode = None, dragStartOffset = \<lparr>pos_x = 0, pos_y = 0\<rparr>,
      panning = False, panStart = \<lparr>pan_x = 0, pan_y = 0, origX = 0, origY = 0\<rparr>,
      mousemoveListeners = [], mouseupListeners = [], idCounter = 1\<rparr>"

section \<open>Utilities\<close>

definition getRelativeCoords :: "mouse_event \<Rightarrow> position" where
  "getRelativeCoords e =
     \<lparr>pos_x = clientX e - left (svgRect e), pos_y = clientY e - top (svgRect e)\<rparr>"

section \<open>Undo and redo\<close>

text \<open>
  In every handler \<open>r\<close> is the render whose closure runs and \<open>s\<close> the state the
  setters act on. A setter called with a function (\<^verbatim>\<open>setHistory(h => ...)\<close>) works on
  the value in \<open>s\<close>; a value read directly (\<^verbatim>\<open>nodes\<close>, \<^verbatim>\<open>history.length\<close>) is the one
  of \<open>r\<close>. \<^verbatim>\<open>JSON.parse(JSON.stringify(v))\<close> copies the value; values here are
  immutable, so the copy is \<open>v\<close>.
\<close>

definition snap :: "render \<Rightarrow> snapshot" where
  "snap r = \<lparr>snap_nodes = nodes r, snap_edges = edges r\<rparr>"

definition pushHistory :: "render \<Rightarrow> state \<Rightarrow> state" where
  "pushHistory r s = rerender (s\<lparr>history := history s @ [snap r], future := []\<rparr>)"

definition handleUndo :: "render \<Rightarrow> state \<Rightarrow> state" where
  "handleUndo r s =
     (if history r = [] then s
      else let prev = last (history r) in
        rerender
         (s\<lparr>future := snap r # future s,
            nodes := snap_nodes prev,
            edges := snap_edges prev,
            history := butlast (history s),
            selectedNode := None\<rparr>))"

definition handleRedo :: "render \<Rightarrow> state \<Rightarrow> state" where
  "handleRedo r s =
     (case future r of
        [] \<Rightarrow> s
      | next # _ \<Rightarrow>
        rerender
         (s\<lparr>history := history s @ [snap r],
            nodes := snap_nodes next,
            edges := snap_edges next,
            future := tl (future s),
            selectedNode := None\<rparr>))"

section \<open>Graph operations\<close>

definition handleAddNode :: "string \<Rightarrow> real \<Rightarrow> real \<Rightarrow> render \<Rightarrow> state \<Rightarrow> state" where
  "handleAddNode ty innerWidth innerHeight r s =
     (let s1 = pushHistory r s in
      s1\<lparr>nodes := nodes s1 @
            [\<lparr>node_id = NodeId (idCounter s1), node_type = ty,
              position =
                \<lparr>pos_x = (innerWidth * 0.6 - 100 - tr_x (transform r)) / tr_k (transform r),
                 pos_y = (innerHeight * 0.4 - 50 - tr_y (transform r)) / tr_k (transform r)\<rparr>,
              data = \<lparr>label = ''New Node''\<rparr>\<rparr>],
         idCounter := Suc (idCounter s1)\<rparr>)"


definition handleStartConnect :: "node_ident \<Rightarrow> state \<Rightarrow> state" where
  "handleStartConnect ident s =
     (if connecting s = Some ident then s else rerender (s\<lparr>connecting := Some ident\<rparr>))"

definition handleCompleteConnect :: "node_ident \<Rightarrow> render \<Rightarrow> state \<Rightarrow> state" where
  "handleCompleteConnect targetId r s =
     (let s1 =
        (case connecting r of
           None \<Rightarrow> s
         | Some c \<Rightarrow>
             if c \<noteq> targetId
             then let s0 = pushHistory r s in
               s0\<lparr>edges := edges s0 @
                    [\<lparr>edge_from = c, edge_to = targetId, edge_id = EdgeId c targetId\<rparr>]\<rparr>
             else s)
      in if connecting s1 = None then s1 else rerender (s1\<lparr>connecting := None\<rparr>))"

section \<open>Dragging a node\<close>

text \<open>
  \<^verbatim>\<open>handleNodeMouseDown\<close> throws a TypeError when \<^verbatim>\<open>nodes.find\<close> returns
  \<^verbatim>\<open>undefined\<close>; the assignment to \<^verbatim>\<open>draggingNode.current\<close> has happened by then.
\<close>

definition handleNodeMouseDown ::
  "mouse_event \<Rightarrow> node_ident \<Rightarrow> render \<Rightarrow> state \<Rightarrow> (error \<times> state) + state" where
  "handleNodeMouseDown e ident r s =
     (let s1 = s\<lparr>draggingNode := Some ident\<rparr> in
      case find (\<lambda>n. node_id n = ident) (nodes r) of
        None \<Rightarrow> Inl (TypeError, s1)
      | Some node \<Rightarrow>
          let mouse = getRelativeCoords e in
          Inr (s1\<lparr>dragStartOffset :=
                     \<lparr>pos_x = pos_x mouse / tr_k (transform r) - pos_x (position node),
                      pos_y = pos_y mouse / tr_k (transform r) - pos_y (position node)\<rparr>,
                   mousemoveListeners :=
                     addEventListener (HandleNodeDrag r) (mousemoveListeners s1),
                   mouseupListeners :=
                     addEventListener (HandleNodeMouseUp r) (mouseupListeners s1)\<rparr>))"

definition handleNodeDrag :: "mouse_event \<Rightarrow> render \<Rightarrow> state \<Rightarrow> state" where
  "handleNodeDrag e r s =
     (case draggingNode s of
        None \<Rightarrow> s
      | Some ident \<Rightarrow>
          let mouse = getRelativeCoords e;
              offX = pos_x (dragStartOffset s);
              offY = pos_y (dragStartOffset s);
              p = \<lparr>pos_x = pos_x mouse / tr_k (transform r) - offX,
                   pos_y = pos_y mouse / tr_k (transform r) - offY\<rparr>
          in rerender
              (s\<lparr>nodes := map (\<lambda>node.
                 if node_id node = ident then node\<lparr>position := p\<rparr> else node) (nodes s)\<rparr>))"

definition handleNodeMouseUp :: "render \<Rightarrow> state \<Rightarrow> state" where
  "handleNodeMouseUp r s =
     (case draggingNode s of
        None \<Rightarrow> s
      | Some _ \<Rightarrow>
          let s1 = pushHistory r s in
          s1\<lparr>draggingNode := None,
             mousemoveListeners := removeEventListener (HandleNodeDrag r) (mousemoveListeners s1),
             mouseupListeners := removeEventListener (HandleNodeMouseUp r) (mouseupListeners s1)\<rparr>)"

section \<open>Pan and zoom\<close>

definition handleCanvasMouseDown :: "mouse_event \<Rightarrow> render \<Rightarrow> state \<Rightarrow> state" where
  "handleCanvasMouseDown e r s =
     (if button e \<noteq> 1 \<and> onBackground e
      then s\<lparr>panning := True,
             panStart := \<lparr>pan_x = clientX e, pan_y = clientY e,
                          origX = tr_x (transform r), origY = tr_y (transform r)\<rparr>,
             mousemoveListeners :=
               addEventListener (HandleCanvasPanMove r) (mousemoveListeners s),
             mouseupListeners :=
               addEventListener (HandleCanvasPanEnd r) (mouseupListeners s)\<rparr>
      else s)"

definition handleCanvasPanMove :: "mouse_event \<Rightarrow> state \<Rightarrow> state" where
  "handleCanvasPanMove e s =
     (if \<not> panning s then s
      else rerender
            (s\<lparr>transform := (transform s)
               \<lparr>tr_x := origX (panStart s) + (clientX e - pan_x (panStart s)),
                tr_y := origY (panStart s) + (clientY e - pan_y (panStart s))\<rparr>\<rparr>))"

definition handleCanvasPanEnd :: "render \<Rightarrow> state \<Rightarrow> state" where
  "handleCanvasPanEnd r s =
     s\<lparr>panning := False,
       mousemoveListeners := removeEventListener (HandleCanvasPanMove r) (mousemoveListeners s),
       mouseupListeners := removeEventListener (HandleCanvasPanEnd r) (mouseupListeners s)\<rparr>"

definition handleWheel :: "wheel_event \<Rightarrow> render \<Rightarrow> state \<Rightarrow> state" where
  "handleWheel e r s =
     (let scale = max 0.2 (min 2.5 (tr_k (transform r) * (if deltaY e < 0 then 1.08 else 0.92)))
      in rerender (s\<lparr>transform := (transform s)\<lparr>tr_k := scale\<rparr>\<rparr>))"

section \<open>Editing, selection and the keyboard\<close>


definition handleNodeUpdate :: "node \<Rightarrow> render \<Rightarrow> state \<Rightarrow> state" where
  "handleNodeUpdate updatedNode r s =
     (let s1 = pushHistory r s in
      s1\<lparr>nodes := map (\<lambda>node.
           if node_id node = node_id updatedNode then updatedNode else node) (nodes s1)\<rparr>)"

definition handleCanvasClick :: "state \<Rightarrow> state" where
  "handleCanvasClick s =
     (if selectedNode s = None \<and> editingNode s = None \<and> connecting s = None then s
      else rerender (s\<lparr>selectedNode := None, editingNode := None, connecting := None\<rparr>))"

definition handleKeyDown :: "key_event \<Rightarrow> render \<Rightarrow> state \<Rightarrow> state" where
  "handleKeyDown e r s =
     (if inputFocused e then s
      else if ctrlKey e \<and> key e = ''z'' then handleUndo r s
      else if ctrlKey e \<and> key e = ''y'' then handleRedo r s
      else if key e = ''Delete'' then
        (case selectedNode r of
           None \<Rightarrow> s
         | Some sel \<Rightarrow>
             let s1 = pushHistory r s in
             s1\<lparr>nodes := filter (\<lambda>node. node_id node \<noteq> sel) (nodes s1),
                edges := filter (\<lambda>edge. edge_from edge \<noteq> sel \<and> edge_to edge \<noteq> sel) (edges s1),
                selectedNode := None\<rparr>)
      else s)"

section \<open>Events on the window\<close>

definition runListener :: "listener \<Rightarrow> mouse_event \<Rightarrow> state \<Rightarrow> state" where
  "runListener l e s =
     (case l of
        HandleNodeDrag r \<Rightarrow> handleNodeDrag e r s
      | HandleNodeMouseUp r \<Rightarrow> handleNodeMouseUp r s
      | HandleCanvasPanMove r \<Rightarrow> handleCanvasPanMove e s
      | HandleCanvasPanEnd r \<Rightarrow> handleCanvasPanEnd r s)"

text \<open>
  The window calls the listeners registered when the event is dispatched, in the order
  of registration, and skips one that an earlier listener has removed.
\<close>

definition windowMouseMove :: "mouse_event \<Rightarrow> state \<Rightarrow> state" where
  "windowMouseMove e s =
     foldl (\<lambda>s' l. if l \<in> set (mousemoveListeners s') then runListener l e s' else s')
       s (mousemoveListeners s)"

definition windowMouseUp :: "mouse_event \<Rightarrow> state \<Rightarrow> state" where
  "windowMouseUp e s =
     foldl (\<lambda>s' l. if l \<in> set (mouseupListeners s') then runListener l e s' else s')
       s (mouseupListeners s)"

text \<open>
  A node-drag gesture: the press on a node is handled by the latest render
  (\<^verbatim>\<open>onMouseDown={e => handleNodeMouseDown(e, node.id)}\<close>), the moves and the release
  by the listeners on the window.
\<close>

definition nodeDragGesture ::
  "mouse_event \<Rightarrow> node_ident \<Rightarrow> mouse_event list \<Rightarrow> mouse_event \<Rightarrow> state
     \<Rightarrow> (error \<times> state) + state" where
  "nodeDragGesture down ident moves up s =
     (case handleNodeMouseDown down ident (rendered s) s of
        Inl err \<Rightarrow> Inl err
      | Inr s1 \<Rightarrow> Inr (windowMouseUp up (foldl (\<lambda>s' e. windowMouseMove e s') s1 moves)))"

text \<open>A sequence of wheel events, each handled by the latest render (\<^verbatim>\<open>onWheel\<close>).\<close>

definition wheels :: "wheel_event list \<Rightarrow> state \<Rightarrow> state" where
  "wheels es s = foldl (\<lambda>s' e. handleWheel e (rendered s') s') s es"

section \<open>Coordinates\<close>

text \<open>
  The pointer position in logical coordinates, as \<^verbatim>\<open>move\<close> in \<^verbatim>\<open>InProgressEdge\<close>
  computes it for the preview line.
\<close>

definition InProgressEdge_move :: "mouse_event \<Rightarrow> transform \<Rightarrow> position" where
  "InProgressEdge_move e t =
     \<lparr>pos_x = (clientX e - left (svgRect e) - tr_x t) / tr_k t,
      pos_y = (clientY e - top (svgRect e) - tr_y t) / tr_k t\<rparr>"

text \<open>
  The group that holds nodes and edges is drawn with the style
  \<^verbatim>\<open>translate(${transform.x}px,${transform.y}px) scale(${transform.k})\<close>: a logical
  point is scaled by k, then translated by (x, y), inside the canvas whose top-left
  corner on the screen is \<^verbatim>\<open>svgRect\<close>.
\<close>

definition groupTransform :: "transform \<Rightarrow> position \<Rightarrow> position" where
  "groupTransform t p =
     \<lparr>pos_x = tr_x t + tr_k t * pos_x p, pos_y = tr_y t + tr_k t * pos_y p\<rparr>"

definition toScreen :: "dom_rect \<Rightarrow> transform \<Rightarrow> position \<Rightarrow> position" where
  "toScreen rect t p =
     \<lparr>pos_x = left rect + pos_x (groupTransform t p),
      pos_y = top rect + pos_y (groupTransform t p)\<rparr>"

section \<open>Handlers called by the latest render\<close>

text \<open>
  The Undo and Redo buttons (\<^verbatim>\<open>onUndo={handleUndo}\<close>, \<^verbatim>\<open>onRedo={handleRedo}\<close>) and the
  key handler, which \<^verbatim>\<open>useCallback\<close> renews whenever \<^verbatim>\<open>selectedNode\<close>, \<^verbatim>\<open>nodes\<close>,
  \<^verbatim>\<open>edges\<close>, \<^verbatim>\<open>history\<close> or \<^verbatim>\<open>future\<close> change, run the closures of the latest render.
\<close>

definition onUndo :: "state \<Rightarrow> state" where
  "onUndo s = handleUndo (rendered s) s"

definition onRedo :: "state \<Rightarrow> state" where
  "onRedo s = handleRedo (rendered s) s"

text \<open>The click handler of a node: \<^verbatim>\<open>setSelectedNode(node.id)\<close>.\<close>

definition selectNode :: "node_ident \<Rightarrow> state \<Rightarrow> state" where
  "selectNode ident s =
     (if selectedNode s = Some ident then s else rerender (s\<lparr>selectedNode := Some ident\<rparr>))"

text \<open>The graph of a state as a snapshot.\<close>

definition current :: "state \<Rightarrow> snapshot" where
  "current s = \<lparr>snap_nodes = nodes s, snap_edges = edges s\<rparr>"

section \<open>Example runs\<close>

text \<open>
  The scenario of the specification: the start node A, a second node B added from the
  sidebar in a window of 1000 by 500 pixels, and an edge from A to B.
\<close>

definition twoNodes :: state where
  "twoNodes = handleAddNode ''default'' 1000 500 (rendered initial) initial"

definition connected :: state where
  "connected =
     (let s = handleStartConnect (NodeId 0) twoNodes
      in handleCompleteConnect (NodeId 1) (rendered s) s)"

definition deleteKey :: key_event where
  "deleteKey = \<lparr>ctrlKey = False, key = ''Delete'', inputFocused = False\<rparr>"

text \<open>A mouse event at a client position, the canvas at the origin of the screen.\<close>

definition pressAt :: "real \<Rightarrow> real \<Rightarrow> mouse_event" where
  "pressAt cx cy =
     \<lparr>clientX = cx, clientY = cy, svgRect = \<lparr>left = 0, top = 0\<rparr>, button = 0,
      onBackground = False\<rparr>"

text \<open>The initial graph seen through a canvas panned by 10 pixels to the right.\<close>

definition panned :: state where
  "panned = initial\<lparr>transform := \<lparr>tr_x = 10, tr_y = 0, tr_k = 1\<rparr>\<rparr>"

text \<open>
  A press on a node, handled by the latest render; when the handler throws, the state
  is as the handler left it.
\<close>

definition onNodeMouseDown :: "mouse_event \<Rightarrow> node_ident \<Rightarrow> state \<Rightarrow> state" where
  "onNodeMouseDown e ident s =
     (case handleNodeMouseDown e ident (rendered s) s of
        Inl (err, s') \<Rightarrow> s'
      | Inr s' \<Rightarrow> s')"

text \<open>
  A drag with a second press: the start node is pressed with the left button at
  (300, 200) and dragged to (320, 230), where the right button is pressed on it too;
  it is dragged on to (350, 260), and the two buttons are released there, the right
  one first.
\<close>

definition twoPresses :: state where
  "twoPresses =
     (let s1 = onNodeMouseDown (pressAt 300 200) (NodeId 0) initial;
          s2 = windowMouseMove (pressAt 320 230) s1;
          s3 = onNodeMouseDown ((pressAt 320 230)\<lparr>button := 2\<rparr>) (NodeId 0) s2;
          s4 = windowMouseMove (pressAt 350 260) s3;
          s5 = windowMouseUp ((pressAt 350 260)\<lparr>button := 2\<rparr>) s4
      in windowMouseUp (pressAt 350 260) s5)"

text \<open>
  The next drag after that: the node is pressed at (350, 260), dragged to (400, 300)
  and released. (The click that follows a release only sets the selection and is left
  out of both runs.)
\<close>

definition secondDrag :: "(error \<times> state) + state" where
  "secondDrag =
     nodeDragGesture (pressAt 350 260) (NodeId 0) [pressAt 400 300] (pressAt 400 300) twoPresses"




section \<open>Basic facts\<close>

lemmas ex_defs = twoNodes_def connected_def initial_def handleAddNode_def pushHistory_def
  rendered_def rerender_def snap_def handleStartConnect_def handleCompleteConnect_def
  selectNode_def deleteKey_def Let_def

lemma rendered_simps:
  "nodes (rendered s) = nodes s" "edges (rendered s) = edges s"
  "selectedNode (rendered s) = selectedNode s" "editingNode (rendered s) = editingNode s"
  "connecting (rendered s) = connecting s" "history (rendered s) = history s"
  "future (rendered s) = future s" "transform (rendered s) = transform s"
  "renderNo (rendered s) = renderNo s"
  by (simp_all add: rendered_def)

lemma rerender_simps:
  "nodes (rerender s) = nodes s" "edges (rerender s) = edges s"
  "selectedNode (rerender s) = selectedNode s" "editingNode (rerender s) = editingNode s"
  "connecting (rerender s) = connecting s" "history (rerender s) = history s"
  "future (rerender s) = future s" "transform (rerender s) = transform s"
  "draggingNode (rerender s) = draggingNode s" "dragStartOffset (rerender s) = dragStartOffset s"
  "mousemoveListeners (rerender s) = mousemoveListeners s"
  "mouseupListeners (rerender s) = mouseupListeners s"
  "idCounter (rerender s) = idCounter s"
  by (simp_all add: rerender_def)

lemma snap_rendered: "snap (rendered s) = current s"
  by (simp add: snap_def rendered_def current_def)

lemma snapshot_eta: "\<lparr>snap_nodes = snap_nodes x, snap_edges = snap_edges x\<rparr> = (x::snapshot)"
  by simp

lemma redo_noop: "future s = [] \<Longrightarrow> onRedo s = s"
  by (simp add: onRedo_def handleRedo_def rendered_simps)

section \<open>Undo and redo are inverse\<close>

text \<open>
  Claim C2. When the past stack is not empty, undo replaces the nodes and edges by those
  of the most recent past snapshot, drops that snapshot from the past stack and puts
  the graph it replaced at the front of the future stack; a redo right after gives back
  the nodes and edges from before the undo, and both stacks as they were.
\<close>

theorem undo_redo_inverse:
  assumes "history s \<noteq> []"
  shows "nodes (onUndo s) = snap_nodes (last (history s))
    \<and> edges (onUndo s) = snap_edges (last (history s))
    \<and> history (onUndo s) = butlast (history s)
    \<and> future (onUndo s) = current s # future s
    \<and> nodes (onRedo (onUndo s)) = nodes s
    \<and> edges (onRedo (onUndo s)) = edges s
    \<and> history (onRedo (onUndo s)) = history s
    \<and> future (onRedo (onUndo s)) = future s"
  using assms
  by (simp add: rerender_def onUndo_def onRedo_def handleUndo_def handleRedo_def rendered_simps
      snap_rendered Let_def snapshot_eta current_def)

text \<open>
  On the scenario: undoing the edge gives the two nodes without the edge, redoing
  gives the edge back.
\<close>

theorem undo_redo_inverse_witness:
  "history connected \<noteq> []
   \<and> nodes (onUndo connected) = nodes twoNodes
   \<and> edges (onUndo connected) = []
   \<and> future (onUndo connected) = [current connected]
   \<and> nodes (onRedo (onUndo connected)) = nodes connected
   \<and> edges (onRedo (onUndo connected)) = edges connected
   \<and> edges connected \<noteq> []"
  using undo_redo_inverse [of connected]
  by (simp add: rerender_def ex_defs)

section \<open>A recorded mutation invalidates redo\<close>

text \<open>
  Claim C3. \<^verbatim>\<open>pushHistory\<close> empties the future stack, whichever render calls it. So
  after each handler that records a mutation (adding a node, saving a label, completing
  a connection between two different nodes, the Delete key with a node selected, the
  release that ends a drag), in any state and so also after an undo, a redo returns the
  state as it is: nodes, edges, past stack and future stack do not change.
\<close>

theorem redo_invalidated:
  "future (pushHistory r s) = []
   \<and> onRedo (handleAddNode ty w h r s) = handleAddNode ty w h r s
   \<and> onRedo (handleNodeUpdate u r s) = handleNodeUpdate u r s
   \<and> (connecting r = Some c \<and> c \<noteq> t \<longrightarrow>
        onRedo (handleCompleteConnect t r s) = handleCompleteConnect t r s)
   \<and> (\<not> inputFocused e \<and> key e = ''Delete'' \<and> selectedNode r = Some i \<longrightarrow>
        onRedo (handleKeyDown e r s) = handleKeyDown e r s)
   \<and> (draggingNode s = Some i \<longrightarrow> onRedo (handleNodeMouseUp r s) = handleNodeMouseUp r s)"
  by (simp add: rerender_def redo_noop pushHistory_def handleAddNode_def handleNodeUpdate_def
      handleCompleteConnect_def handleKeyDown_def handleNodeMouseUp_def Let_def)

text \<open>
  After undoing the edge of the scenario the future stack is not empty; connecting B to
  A, or deleting B, makes the redo that follows change nothing.
\<close>

theorem redo_invalidated_witness:
  "future (onUndo connected) \<noteq> []
   \<and> connecting (rendered (handleStartConnect (NodeId 1) (onUndo connected))) = Some (NodeId 1)
   \<and> NodeId 1 \<noteq> NodeId 0
   \<and> \<not> inputFocused deleteKey \<and> key deleteKey = ''Delete''
   \<and> selectedNode (rendered (selectNode (NodeId 1) (onUndo connected))) = Some (NodeId 1)
   \<and> onRedo (handleCompleteConnect (NodeId 0)
          (rendered (handleStartConnect (NodeId 1) (onUndo connected)))
          (handleStartConnect (NodeId 1) (onUndo connected)))
      = handleCompleteConnect (NodeId 0)
          (rendered (handleStartConnect (NodeId 1) (onUndo connected)))
          (handleStartConnect (NodeId 1) (onUndo connected))
   \<and> onRedo (handleKeyDown deleteKey (rendered (selectNode (NodeId 1) (onUndo connected)))
          (selectNode (NodeId 1) (onUndo connected)))
      = handleKeyDown deleteKey (rendered (selectNode (NodeId 1) (onUndo connected)))
          (selectNode (NodeId 1) (onUndo connected))"
  using redo_invalidated [of "rendered (handleStartConnect (NodeId 1) (onUndo connected))"
      "handleStartConnect (NodeId 1) (onUndo connected)" _ _ _ _ "NodeId 1" "NodeId 0"
      deleteKey "NodeId 1"]
    redo_invalidated [of "rendered (selectNode (NodeId 1) (onUndo connected))"
      "selectNode (NodeId 1) (onUndo connected)" _ _ _ _ "NodeId 1" "NodeId 0"
      deleteKey "NodeId 1"]
  by (simp add: rerender_def ex_defs onUndo_def handleUndo_def)

section \<open>Deleting a node\<close>

text \<open>
  Claim C5. The Delete key, pressed outside a text input while node i is selected,
  removes every node with id i and keeps the others in their order, and no edge that
  remains starts or ends at i.
\<close>

theorem cascade_delete:
  assumes "key e = ''Delete''" "\<not> inputFocused e" "selectedNode s = Some i"
  shows "i \<notin> node_id ` set (nodes (handleKeyDown e (rendered s) s))
    \<and> (\<forall>ed \<in> set (edges (handleKeyDown e (rendered s) s)). edge_from ed \<noteq> i \<and> edge_to ed \<noteq> i)
    \<and> nodes (handleKeyDown e (rendered s) s) = filter (\<lambda>n. node_id n \<noteq> i) (nodes s)"
  using assms by (auto simp add: rerender_def handleKeyDown_def rendered_simps pushHistory_def Let_def)

text \<open>On the scenario: deleting A leaves no edge and the single node B.\<close>

theorem cascade_delete_witness:
  "key deleteKey = ''Delete'' \<and> \<not> inputFocused deleteKey
   \<and> selectedNode (selectNode (NodeId 0) connected) = Some (NodeId 0)
   \<and> length (edges connected) = 1
   \<and> edges (handleKeyDown deleteKey (rendered (selectNode (NodeId 0) connected))
        (selectNode (NodeId 0) connected)) = []
   \<and> map node_id (nodes (handleKeyDown deleteKey (rendered (selectNode (NodeId 0) connected))
        (selectNode (NodeId 0) connected))) = [NodeId 1]"
  using cascade_delete [of deleteKey "selectNode (NodeId 0) connected" "NodeId 0"]
  by (simp add: rerender_def ex_defs handleKeyDown_def)

section \<open>Self-loops\<close>

text \<open>
  Claim C7. Completing a connection on the node it started from changes nothing but the
  connection in progress, which is cleared (and the component renders again): no edge
  is added and neither stack changes.
\<close>

theorem self_loop_rejected:
  assumes "connecting s = Some x"
  shows "handleCompleteConnect x (rendered s) s = rerender (s\<lparr>connecting := None\<rparr>)"
  using assms by (simp add: rerender_def handleCompleteConnect_def rendered_simps)

theorem self_loop_rejected_witness:
  "connecting (handleStartConnect (NodeId 0) twoNodes) = Some (NodeId 0)
   \<and> edges (handleCompleteConnect (NodeId 0) (rendered (handleStartConnect (NodeId 0) twoNodes))
        (handleStartConnect (NodeId 0) twoNodes)) = []
   \<and> history (handleCompleteConnect (NodeId 0) (rendered (handleStartConnect (NodeId 0) twoNodes))
        (handleStartConnect (NodeId 0) twoNodes)) = history twoNodes
   \<and> connecting (handleCompleteConnect (NodeId 0) (rendered (handleStartConnect (NodeId 0) twoNodes))
        (handleStartConnect (NodeId 0) twoNodes)) = None"
  using self_loop_rejected [of "handleStartConnect (NodeId 0) twoNodes" "NodeId 0"]
  by (simp add: rerender_def handleStartConnect_def twoNodes_def initial_def handleAddNode_def
      pushHistory_def Let_def)

section \<open>Coordinate round trip\<close>

text \<open>
  Claim C9. For a zoom factor between 0.2 and 2.5 and any pan offset, converting a
  screen point to logical coordinates and drawing the result through the transform of
  the group gives the screen point back, in exact arithmetic.
\<close>

theorem coordinate_round_trip:
  assumes "0.2 \<le> tr_k t" "tr_k t \<le> 2.5"
  shows "toScreen (svgRect e) t (InProgressEdge_move e t)
       = \<lparr>pos_x = clientX e, pos_y = clientY e\<rparr>"
  using assms by (simp add: rerender_def toScreen_def groupTransform_def InProgressEdge_move_def)

theorem coordinate_round_trip_witness:
  "(0.2::real) \<le> 2 \<and> (2::real) \<le> 2.5
   \<and> toScreen \<lparr>left = 8, top = 40\<rparr> \<lparr>tr_x = 30, tr_y = -12, tr_k = 2\<rparr>
        (InProgressEdge_move
           \<lparr>clientX = 101, clientY = 77, svgRect = \<lparr>left = 8, top = 40\<rparr>, button = 0,
             onBackground = False\<rparr>
           \<lparr>tr_x = 30, tr_y = -12, tr_k = 2\<rparr>)
       = \<lparr>pos_x = 101, pos_y = 77\<rparr>"
  using coordinate_round_trip [of "\<lparr>tr_x = 30, tr_y = -12, tr_k = 2\<rparr>"
      "\<lparr>clientX = 101, clientY = 77, svgRect = \<lparr>left = 8, top = 40\<rparr>, button = 0,
             onBackground = False\<rparr>"]
  by simp

section \<open>What undo and redo leave alone\<close>

text \<open>
  Claim C10. An undo with a non-empty past stack and a redo with a non-empty future
  stack clear the selection; undo and redo never change the pan and zoom transform.
\<close>

theorem undo_redo_frame:
  "(history s \<noteq> [] \<longrightarrow> selectedNode (onUndo s) = None)
   \<and> (future s \<noteq> [] \<longrightarrow> selectedNode (onRedo s) = None)
   \<and> transform (onUndo s) = transform s
   \<and> transform (onRedo s) = transform s"
  by (simp add: rerender_def onUndo_def onRedo_def handleUndo_def handleRedo_def rendered_simps Let_def
      split: list.splits)

theorem undo_redo_frame_witness:
  "history connected \<noteq> [] \<and> selectedNode (selectNode (NodeId 0) connected) = Some (NodeId 0)
   \<and> selectedNode (onUndo (selectNode (NodeId 0) connected)) = None
   \<and> future (onUndo connected) \<noteq> []
   \<and> selectedNode (onRedo (selectNode (NodeId 0) (onUndo connected))) = None"
  using undo_redo_frame [of "selectNode (NodeId 0) connected"]
    undo_redo_frame [of "selectNode (NodeId 0) (onUndo connected)"]
  by (simp add: rerender_def ex_defs onUndo_def handleUndo_def)

section \<open>Zoom\<close>

lemma handleWheel_k:
  "tr_k (transform (handleWheel e (rendered s) s)) =
     max 0.2 (min 2.5 (tr_k (transform s) * (if deltaY e < 0 then 1.08 else 0.92)))"
  by (simp add: rerender_def handleWheel_def rendered_simps Let_def)

lemma handleWheel_range:
  "0.2 \<le> tr_k (transform (handleWheel e r s)) \<and> tr_k (transform (handleWheel e r s)) \<le> 2.5"
  by (simp add: rerender_def handleWheel_def Let_def)

lemma wheels_range:
  "es \<noteq> [] \<or> (0.2 \<le> tr_k (transform s) \<and> tr_k (transform s) \<le> 2.5) \<Longrightarrow>
   0.2 \<le> tr_k (transform (wheels es s)) \<and> tr_k (transform (wheels es s)) \<le> 2.5"
proof (induction es arbitrary: s)
  case Nil
  then show ?case by (simp add: rerender_def wheels_def)
next
  case (Cons e es)
  have "wheels (e # es) s = wheels es (handleWheel e (rendered s) s)"
    by (simp add: rerender_def wheels_def)
  moreover have "0.2 \<le> tr_k (transform (wheels es (handleWheel e (rendered s) s)))
      \<and> tr_k (transform (wheels es (handleWheel e (rendered s) s))) \<le> 2.5"
    using Cons.IH [of "handleWheel e (rendered s) s"] handleWheel_range by blast
  ultimately show ?case by simp
qed

text \<open>
  Claim C4, as the code has it. A wheel event multiplies the zoom factor by 1.08 when
  \<^verbatim>\<open>deltaY\<close> is negative and by 0.92 otherwise (not by 1/1.08), and clamps the product
  into [0.2, 2.5]. So the factor is in [0.2, 2.5] after every wheel event, and after
  any sequence of wheel events that is not empty or starts from a factor in that range.
\<close>

theorem wheel_zoom:
  "tr_k (transform (handleWheel e (rendered s) s)) =
     max 0.2 (min 2.5 (tr_k (transform s) * (if deltaY e < 0 then 1.08 else 0.92)))
   \<and> 0.2 \<le> tr_k (transform (handleWheel e (rendered s) s))
   \<and> tr_k (transform (handleWheel e (rendered s) s)) \<le> 2.5
   \<and> (es \<noteq> [] \<or> (0.2 \<le> tr_k (transform s) \<and> tr_k (transform s) \<le> 2.5) \<longrightarrow>
        0.2 \<le> tr_k (transform (wheels es s)) \<and> tr_k (transform (wheels es s)) \<le> 2.5)"
  using handleWheel_k handleWheel_range wheels_range by blast

text \<open>
  One zoom-out notch from the initial factor 1 gives 0.92, which is not the factor
  1/1.08 of the claim, clamped.
\<close>

theorem wheel_zoom_counterexample:
  "tr_k (transform (handleWheel \<lparr>deltaY = 100\<rparr> (rendered initial) initial))
     \<noteq> max 0.2 (min 2.5 (tr_k (transform initial) * (1 / 1.08)))"
  by (simp add: rerender_def handleWheel_def rendered_def initial_def Let_def)

theorem wheel_zoom_witness:
  "tr_k (transform (handleWheel \<lparr>deltaY = 100\<rparr> (rendered initial) initial)) = 0.92
   \<and> tr_k (transform (handleWheel \<lparr>deltaY = -100\<rparr> (rendered initial) initial)) = 1.08
   \<and> [\<lparr>deltaY = -100\<rparr>, \<lparr>deltaY = -100\<rparr>] \<noteq> []
   \<and> 0.2 \<le> tr_k (transform initial) \<and> tr_k (transform initial) \<le> 2.5
   \<and> tr_k (transform (wheels [\<lparr>deltaY = -100\<rparr>, \<lparr>deltaY = -100\<rparr>] initial)) = 1.1664
   \<and> 0.2 \<le> tr_k (transform (wheels [\<lparr>deltaY = -100\<rparr>, \<lparr>deltaY = -100\<rparr>] initial))
   \<and> tr_k (transform (wheels [\<lparr>deltaY = -100\<rparr>, \<lparr>deltaY = -100\<rparr>] initial)) \<le> 2.5"
  using wheel_zoom [of "\<lparr>deltaY = 100\<rparr>" initial "[\<lparr>deltaY = -100\<rparr>, \<lparr>deltaY = -100\<rparr>]"]
    wheel_zoom [of "\<lparr>deltaY = -100\<rparr>" initial "[\<lparr>deltaY = -100\<rparr>, \<lparr>deltaY = -100\<rparr>]"]
  by (simp add: rerender_def wheels_def handleWheel_def rendered_def initial_def Let_def)

section \<open>The drag offset\<close>

text \<open>
  Claim C6, as the code has it. The press on a node of the graph, with a zoom factor k
  in [0.2, 2.5] and any pan offset, records as drag offset the pointer position
  relative to the canvas origin divided by k, minus the node's origin: the pan offset
  is not subtracted, and the conversion of the drag is lx = (sx - ox) / k,
  ly = (sy - oy) / k. It is the conversion of the coordinate transform when the pan
  offset is (0, 0). A move handled by the listener of that press puts every node with
  the pressed id at the same conversion of the pointer minus the offset, that is at
  the first such node's origin plus the pointer's displacement divided by k.
\<close>

theorem drag_offset:
  assumes "find (\<lambda>n. node_id n = i) (nodes s) = Some n"
    and "0.2 \<le> tr_k (transform s)" and "tr_k (transform s) \<le> 2.5"
  shows "\<not> isl (handleNodeMouseDown e i (rendered s) s)
    \<and> dragStartOffset (projr (handleNodeMouseDown e i (rendered s) s))
        = \<lparr>pos_x = (clientX e - left (svgRect e)) / tr_k (transform s) - pos_x (position n),
           pos_y = (clientY e - top (svgRect e)) / tr_k (transform s) - pos_y (position n)\<rparr>
    \<and> (tr_x (transform s) = 0 \<and> tr_y (transform s) = 0 \<longrightarrow>
        dragStartOffset (projr (handleNodeMouseDown e i (rendered s) s))
        = \<lparr>pos_x = pos_x (InProgressEdge_move e (transform s)) - pos_x (position n),
           pos_y = pos_y (InProgressEdge_move e (transform s)) - pos_y (position n)\<rparr>)
    \<and> nodes (handleNodeDrag e' (rendered s) (projr (handleNodeMouseDown e i (rendered s) s)))
        = map (\<lambda>node. if node_id node = i
            then node\<lparr>position :=
              \<lparr>pos_x = (clientX e' - left (svgRect e')) / tr_k (transform s)
                  - pos_x (dragStartOffset (projr (handleNodeMouseDown e i (rendered s) s))),
               pos_y = (clientY e' - top (svgRect e')) / tr_k (transform s)
                  - pos_y (dragStartOffset (projr (handleNodeMouseDown e i (rendered s) s)))\<rparr>\<rparr>
            else node) (nodes s)
    \<and> nodes (handleNodeDrag e' (rendered s) (projr (handleNodeMouseDown e i (rendered s) s)))
        = map (\<lambda>node. if node_id node = i
            then node\<lparr>position :=
              \<lparr>pos_x = pos_x (position n)
                  + ((clientX e' - left (svgRect e')) - (clientX e - left (svgRect e)))
                    / tr_k (transform s),
               pos_y = pos_y (position n)
                  + ((clientY e' - top (svgRect e')) - (clientY e - top (svgRect e)))
                    / tr_k (transform s)\<rparr>\<rparr>
            else node) (nodes s)"
  using assms
  by (simp add: rerender_def handleNodeMouseDown_def handleNodeDrag_def getRelativeCoords_def
      InProgressEdge_move_def rendered_simps Let_def diff_divide_distrib)

text \<open>
  With the canvas panned by 10 pixels and the start node pressed 10 pixels right of its
  drawn origin, the offset recorded is 10, while the pointer in logical coordinates
  minus the node's origin is 0.
\<close>

theorem drag_offset_counterexample:
  "pos_x (dragStartOffset (projr (handleNodeMouseDown (pressAt 230 170) (NodeId 0)
       (rendered panned) panned)))
   \<noteq> pos_x (InProgressEdge_move (pressAt 230 170) (transform panned))
       - pos_x (position (hd (nodes panned)))"
  by (simp add: rerender_def handleNodeMouseDown_def panned_def pressAt_def initial_def rendered_def
      getRelativeCoords_def InProgressEdge_move_def Let_def)

theorem drag_offset_witness:
  "find (\<lambda>n. node_id n = NodeId 0) (nodes panned) = Some (hd (nodes panned))
   \<and> 0.2 \<le> tr_k (transform panned) \<and> tr_k (transform panned) \<le> 2.5
   \<and> dragStartOffset (projr (handleNodeMouseDown (pressAt 230 170) (NodeId 0)
        (rendered panned) panned)) = \<lparr>pos_x = 10, pos_y = 0\<rparr>
   \<and> find (\<lambda>n. node_id n = NodeId 0) (nodes initial) = Some (hd (nodes initial))
   \<and> tr_x (transform initial) = 0 \<and> tr_y (transform initial) = 0
   \<and> dragStartOffset (projr (handleNodeMouseDown (pressAt 230 170) (NodeId 0)
        (rendered initial) initial))
      = \<lparr>pos_x = pos_x (InProgressEdge_move (pressAt 230 170) (transform initial)) - 220,
         pos_y = pos_y (InProgressEdge_move (pressAt 230 170) (transform initial)) - 170\<rparr>
   \<and> map position (nodes (handleNodeDrag (pressAt 250 200) (rendered panned)
        (projr (handleNodeMouseDown (pressAt 230 170) (NodeId 0) (rendered panned) panned))))
      = [\<lparr>pos_x = 240, pos_y = 200\<rparr>]"
  using drag_offset [of "NodeId 0" panned "hd (nodes panned)" "pressAt 230 170" "pressAt 250 200"]
    drag_offset [of "NodeId 0" initial "hd (nodes initial)" "pressAt 230 170" "pressAt 250 200"]
  by (simp add: rerender_def panned_def initial_def pressAt_def InProgressEdge_move_def)

section \<open>An ordinary drag\<close>

lemmas run_defs = onNodeMouseDown_def handleNodeMouseDown_def windowMouseMove_def
  windowMouseUp_def runListener_def handleNodeDrag_def handleNodeMouseUp_def
  addEventListener_def removeEventListener_def getRelativeCoords_def pressAt_def
  pushHistory_def rerender_def rendered_def snap_def Let_def

lemma find_in: "j \<in> node_id ` set ns \<Longrightarrow> \<exists>n. find (\<lambda>n. node_id n = j) ns = Some n"
  by (induction ns) auto

lemma mouseDown_idle:
  assumes "find (\<lambda>n. node_id n = j) (nodes s) = Some n"
    and "mousemoveListeners s = []" and "mouseupListeners s = []"
  shows "\<exists>off. handleNodeMouseDown e j (rendered s) s =
     Inr (s\<lparr>draggingNode := Some j, dragStartOffset := off,
            mousemoveListeners := [HandleNodeDrag (rendered s)],
            mouseupListeners := [HandleNodeMouseUp (rendered s)]\<rparr>)"
  using assms
  by (simp add: handleNodeMouseDown_def addEventListener_def rendered_simps Let_def) blast

text \<open>A move during a drag changes the node list and the render, and nothing else.\<close>

lemma handleNodeDrag_frame: "\<exists>ns k. handleNodeDrag e r s = s\<lparr>nodes := ns, renderNo := k\<rparr>"
proof (cases "draggingNode s")
  case None
  then have "handleNodeDrag e r s = s\<lparr>nodes := nodes s, renderNo := renderNo s\<rparr>"
    by (simp add: handleNodeDrag_def)
  then show ?thesis by blast
next
  case (Some a)
  then show ?thesis by (simp add: handleNodeDrag_def rerender_def Let_def) blast
qed

lemma windowMouseMove_dragging:
  assumes "mousemoveListeners s = [HandleNodeDrag r]"
  shows "\<exists>ns k. windowMouseMove e s = s\<lparr>nodes := ns, renderNo := k\<rparr>"
  using assms handleNodeDrag_frame [of e r s]
  by (simp add: windowMouseMove_def runListener_def)

lemma moves_dragging:
  assumes "mousemoveListeners s = [HandleNodeDrag r]"
  shows "\<exists>ns k. foldl (\<lambda>s' e. windowMouseMove e s') s moves = s\<lparr>nodes := ns, renderNo := k\<rparr>"
  using assms
proof (induction moves arbitrary: s)
  case Nil
  have "s = s\<lparr>nodes := nodes s, renderNo := renderNo s\<rparr>" by simp
  then show ?case by (metis foldl_Nil)
next
  case (Cons e moves)
  obtain ns k where ns: "windowMouseMove e s = s\<lparr>nodes := ns, renderNo := k\<rparr>"
    using windowMouseMove_dragging [OF Cons.prems] by blast
  have "mousemoveListeners (s\<lparr>nodes := ns, renderNo := k\<rparr>) = [HandleNodeDrag r]"
    using Cons.prems by simp
  from Cons.IH [OF this] obtain ns' k' where
    "foldl (\<lambda>s' e. windowMouseMove e s') (s\<lparr>nodes := ns, renderNo := k\<rparr>) moves
       = s\<lparr>nodes := ns', renderNo := k'\<rparr>"
    by auto
  then show ?case using ns by simp blast
qed

text \<open>
  The release runs the closure registered at the press: the snapshot it pushes is the
  graph of the render \<open>r\<close> that registered it.
\<close>

lemma windowMouseUp_dragging:
  assumes "mouseupListeners s = [HandleNodeMouseUp r]" and "draggingNode s = Some j"
  shows "history (windowMouseUp e s) = history s @ [snap r]
    \<and> future (windowMouseUp e s) = []
    \<and> draggingNode (windowMouseUp e s) = None
    \<and> mouseupListeners (windowMouseUp e s) = []
    \<and> mousemoveListeners (windowMouseUp e s) = removeAll (HandleNodeDrag r) (mousemoveListeners s)"
  using assms
  by (simp add: windowMouseUp_def runListener_def handleNodeMouseUp_def pushHistory_def
      removeEventListener_def rerender_def Let_def)

lemma onUndo_last:
  assumes "history s' = hs @ [x]"
  shows "nodes (onUndo s') = snap_nodes x \<and> edges (onUndo s') = snap_edges x"
  using assms by (simp add: onUndo_def handleUndo_def rendered_simps rerender_def Let_def)

text \<open>
  Adding a node, saving a label, completing a connection between two different nodes
  and the Delete key call \<^verbatim>\<open>pushHistory\<close> of the latest render before their setters:
  the snapshot they push is the graph they start from.
\<close>

lemma recording_handlers:
  "history (handleAddNode ty w h (rendered s) s) = history s @ [current s]
   \<and> history (handleNodeUpdate u (rendered s) s) = history s @ [current s]
   \<and> (connecting s = Some c \<and> c \<noteq> t \<longrightarrow>
        history (handleCompleteConnect t (rendered s) s) = history s @ [current s])
   \<and> (\<not> inputFocused ke \<and> key ke = ''Delete'' \<and> selectedNode s = Some i \<longrightarrow>
        history (handleKeyDown ke (rendered s) s) = history s @ [current s])"
  by (simp add: handleAddNode_def handleNodeUpdate_def handleCompleteConnect_def
      handleKeyDown_def pushHistory_def rerender_def snap_rendered rendered_simps Let_def)

text \<open>
  A drag that starts with no listener left on the window, on a node of the graph, with
  any moves, pushes one snapshot, the graph from before the press; one undo after the
  release gives the nodes and edges from before the drag, and no listener is left.
  \<^verbatim>\<open>pushHistory\<close> is called at the release, after the moves, but by the listener that
  the press registered: a closure of the render of the press, whose \<^verbatim>\<open>nodes\<close> and
  \<^verbatim>\<open>edges\<close> it copies.
\<close>

lemma drag_gesture:
  assumes "mousemoveListeners s = []" and "mouseupListeners s = []"
    and "j \<in> node_id ` set (nodes s)"
  shows "\<not> isl (nodeDragGesture down j moves up s)
    \<and> history (projr (nodeDragGesture down j moves up s)) = history s @ [current s]
    \<and> nodes (onUndo (projr (nodeDragGesture down j moves up s))) = nodes s
    \<and> edges (onUndo (projr (nodeDragGesture down j moves up s))) = edges s
    \<and> mousemoveListeners (projr (nodeDragGesture down j moves up s)) = []
    \<and> mouseupListeners (projr (nodeDragGesture down j moves up s)) = []"
proof -
  obtain n where n: "find (\<lambda>n. node_id n = j) (nodes s) = Some n"
    using find_in [OF assms(3)] by blast
  obtain off where down:
    "handleNodeMouseDown down j (rendered s) s =
       Inr (s\<lparr>draggingNode := Some j, dragStartOffset := off,
              mousemoveListeners := [HandleNodeDrag (rendered s)],
              mouseupListeners := [HandleNodeMouseUp (rendered s)]\<rparr>)"
    using mouseDown_idle [OF n assms(1) assms(2)] by blast
  define s1 where "s1 = s\<lparr>draggingNode := Some j, dragStartOffset := off,
              mousemoveListeners := [HandleNodeDrag (rendered s)],
              mouseupListeners := [HandleNodeMouseUp (rendered s)]\<rparr>"
  have l1: "mousemoveListeners s1 = [HandleNodeDrag (rendered s)]"
    by (simp add: s1_def)
  obtain ns k where ns:
    "foldl (\<lambda>s' e. windowMouseMove e s') s1 moves = s1\<lparr>nodes := ns, renderNo := k\<rparr>"
    using moves_dragging [OF l1] by blast
  define s2 where "s2 = s1\<lparr>nodes := ns, renderNo := k\<rparr>"
  have g: "nodeDragGesture down j moves up s = Inr (windowMouseUp up s2)"
    using down ns by (simp add: nodeDragGesture_def s1_def s2_def)
  have l2: "mouseupListeners s2 = [HandleNodeMouseUp (rendered s)]"
    and d2: "draggingNode s2 = Some j"
    and m2: "mousemoveListeners s2 = [HandleNodeDrag (rendered s)]"
    and h2: "history s2 = history s"
    by (simp_all add: s1_def s2_def)
  have h: "history (projr (nodeDragGesture down j moves up s)) = history s @ [current s]"
    using windowMouseUp_dragging [OF l2 d2, of up] g h2 by (simp add: snap_rendered)
  show ?thesis
    using windowMouseUp_dragging [OF l2 d2, of up] g m2 h
      onUndo_last [OF h]
    by (simp add: current_def)
qed

section \<open>A drag after a second press\<close>

lemma twoPresses_eval:
  "twoPresses =
     \<lparr>nodes = [\<lparr>node_id = NodeId 0, node_type = ''default'',
                position = \<lparr>pos_x = 270, pos_y = 230\<rparr>,
                data = \<lparr>label = ''Start Node''\<rparr>\<rparr>],
      edges = [], selectedNode = None, editingNode = None, connecting = None,
      history = [\<lparr>snap_nodes = [\<lparr>node_id = NodeId 0, node_type = ''default'',
                    position = \<lparr>pos_x = 220, pos_y = 170\<rparr>,
                    data = \<lparr>label = ''Start Node''\<rparr>\<rparr>], snap_edges = []\<rparr>],
      future = [], transform = \<lparr>tr_x = 0, tr_y = 0, tr_k = 1\<rparr>, renderNo = 4,
      draggingNode = None, dragStartOffset = \<lparr>pos_x = 80, pos_y = 30\<rparr>,
      panning = False, panStart = \<lparr>pan_x = 0, pan_y = 0, origX = 0, origY = 0\<rparr>,
      mousemoveListeners =
        [HandleNodeDrag
          \<lparr>nodes = [\<lparr>node_id = NodeId 0, node_type = ''default'',
                     position = \<lparr>pos_x = 240, pos_y = 200\<rparr>,
                     data = \<lparr>label = ''Start Node''\<rparr>\<rparr>],
           edges = [], selectedNode = None, editingNode = None, connecting = None,
           history = [], future = [], transform = \<lparr>tr_x = 0, tr_y = 0, tr_k = 1\<rparr>,
           renderNo = 1\<rparr>],
      mouseupListeners =
        [HandleNodeMouseUp
          \<lparr>nodes = [\<lparr>node_id = NodeId 0, node_type = ''default'',
                     position = \<lparr>pos_x = 240, pos_y = 200\<rparr>,
                     data = \<lparr>label = ''Start Node''\<rparr>\<rparr>],
           edges = [], selectedNode = None, editingNode = None, connecting = None,
           history = [], future = [], transform = \<lparr>tr_x = 0, tr_y = 0, tr_k = 1\<rparr>,
           renderNo = 1\<rparr>],
      idCounter = 1\<rparr>"
  by (simp add: twoPresses_def initial_def run_defs)

lemma secondDrag_eval:
  "\<not> isl secondDrag
   \<and> map position (nodes (projr secondDrag)) = [\<lparr>pos_x = 320, pos_y = 270\<rparr>]
   \<and> map (map position \<circ> snap_nodes) (history (projr secondDrag))
       = [[\<lparr>pos_x = 220, pos_y = 170\<rparr>], [\<lparr>pos_x = 240, pos_y = 200\<rparr>]]
   \<and> map position (nodes (onUndo (projr secondDrag))) = [\<lparr>pos_x = 240, pos_y = 200\<rparr>]"
  unfolding secondDrag_def twoPresses_eval
  by (simp add: nodeDragGesture_def run_defs onUndo_def handleUndo_def)

text \<open>
  Claim C1 says that the snapshot a gesture records is the graph from before its
  mutation and, for a drag, that the one snapshot taken at the release holds the node
  positions from before the moves, so that one undo after the drag restores them. The
  handlers do not keep to it after a drag with a second press. \<^verbatim>\<open>handleNodeMouseUp\<close>
  returns at once when \<^verbatim>\<open>draggingNode.current\<close> is null, before it removes its
  listeners; at the release of such a drag the listener of the first press records the
  snapshot and clears the cell, and the listeners of the second press, functions of a
  later render, stay on the window. They run first at the release of the next drag:
  that drag starts with the node at (270, 230) and moves it to (320, 270), the snapshot
  it records holds the node at (240, 200), where the second press found it, not at
  (270, 230), and one undo puts the node at (240, 200).
\<close>

theorem stale_snapshot:
  "map position (nodes twoPresses) = [\<lparr>pos_x = 270, pos_y = 230\<rparr>]
   \<and> draggingNode twoPresses = None
   \<and> length (mouseupListeners twoPresses) = 1
   \<and> \<not> isl secondDrag
   \<and> map position (nodes (projr secondDrag)) = [\<lparr>pos_x = 320, pos_y = 270\<rparr>]
   \<and> length (history (projr secondDrag)) = Suc (length (history twoPresses))
   \<and> map position (snap_nodes (last (history (projr secondDrag))))
       = [\<lparr>pos_x = 240, pos_y = 200\<rparr>]
   \<and> last (history (projr secondDrag)) \<noteq> current twoPresses
   \<and> map position (nodes (onUndo (projr secondDrag))) = [\<lparr>pos_x = 240, pos_y = 200\<rparr>]
   \<and> nodes (onUndo (projr secondDrag)) \<noteq> nodes twoPresses"
proof -
  have t: "map position (nodes twoPresses) = [\<lparr>pos_x = 270, pos_y = 230\<rparr>]
      \<and> draggingNode twoPresses = None
      \<and> length (mouseupListeners twoPresses) = 1
      \<and> length (history twoPresses) = 1
      \<and> map position (snap_nodes (current twoPresses)) = [\<lparr>pos_x = 270, pos_y = 230\<rparr>]"
    by (simp add: twoPresses_eval current_def)
  have h: "map (map position \<circ> snap_nodes) (history (projr secondDrag))
       = [[\<lparr>pos_x = 220, pos_y = 170\<rparr>], [\<lparr>pos_x = 240, pos_y = 200\<rparr>]]"
    using secondDrag_eval by blast
  then have l: "length (history (projr secondDrag)) = 2"
    by (metis length_map length_Cons list.size(3) numeral_2_eq_2)
  have "map (map position \<circ> snap_nodes) (history (projr secondDrag)) \<noteq> []"
    using h by simp
  then have ne: "history (projr secondDrag) \<noteq> []" by auto
  have "(map position \<circ> snap_nodes) (last (history (projr secondDrag)))
       = last (map (map position \<circ> snap_nodes) (history (projr secondDrag)))"
    using ne by (simp add: last_map)
  then have s: "map position (snap_nodes (last (history (projr secondDrag))))
       = [\<lparr>pos_x = 240, pos_y = 200\<rparr>]"
    using h by simp
  have d1: "last (history (projr secondDrag)) \<noteq> current twoPresses"
    using s t by auto
  have u: "map position (nodes (onUndo (projr secondDrag))) = [\<lparr>pos_x = 240, pos_y = 200\<rparr>]"
    using secondDrag_eval by blast
  have d2: "nodes (onUndo (projr secondDrag)) \<noteq> nodes twoPresses"
    using u t by auto
  show ?thesis
    using t l s d1 u d2 secondDrag_eval by simp
qed

section \<open>Operations on an unknown id\<close>




end
